theory Spec2Isabelle
  imports Complex_Main
begin

section \<open>The ratings-driven recommender of the Spotify Wrapped backend\<close>

text \<open>
  This theory embeds the recommender of \<^verbatim>\<open>src/backend/spotify_api_dynamic.py\<close>:
  the module-level handles filled by \<^verbatim>\<open>load_recommender_models\<close> and the request
  handler \<^verbatim>\<open>submit_ratings_and_recommend\<close>.

  Conventions of the embedding.
  \<^item> numpy's float64 coordinates and distances are modelled as \<^typ>\<open>real\<close>: the
    arithmetic is exact. The rounding of float64 operations, and with it the order in
    which numpy accumulates a sum, is not modelled; no property below speaks about it.
  \<^item> Catalog identities (\<^verbatim>\<open>df_index\<close>) and star ratings are JSON integers.
  \<^item> A Python exception is a value of \<^typ>\<open>'e + 'a\<close>; the handler's
    \<^verbatim>\<open>except Exception\<close> turns every one of them into the HTTP 500 answer.
  \<^item> An HTTP error answer is the pair of its status code and its \<^verbatim>\<open>error\<close> text.
\<close>

subsection \<open>Data\<close>

type_synonym vec = "real list"

text \<open>A numeric cell of the frame: a number, or pandas' missing value \<^verbatim>\<open>NaN\<close>.\<close>

datatype cell = NaN | Value int

text \<open>A row of \<^verbatim>\<open>recommender_df\<close>; \<open>None\<close> is a column the frame does not have
  (\<^verbatim>\<open>song.get(col, default)\<close> then yields the default).\<close>

record song =
  track_name :: "string option"
  artists :: "string option"
  year :: "cell option"
  popularity :: "cell option"
  track_genre :: "string option"

text \<open>\<^verbatim>\<open>recommender_df\<close>: the rows in positional order, each with its index label.
  \<^verbatim>\<open>recommender_df.index\<close> is the list of labels, \<^verbatim>\<open>recommender_df.iloc[i]\<close> the
  row at position \<open>i\<close>.\<close>

type_synonym dataframe = "(int \<times> song) list"

definition index :: "dataframe \<Rightarrow> int list" where
  "index df = map fst df"

text \<open>A value stored under a key of a JSON object of the request: the key may be
  absent, hold \<^verbatim>\<open>null\<close>, or hold an integer.\<close>

datatype jfield = Absent | Null | Num int

record rating =
  df_index :: jfield
  rating :: jfield

record request =
  ratings_key :: "rating list option"
  top_k_key :: "int option"

record recommendation =
  rec_track_name :: string
  rec_artists :: string
  rec_year :: int
  rec_popularity :: int
  rec_track_genre :: string
  similarity_score :: real

text \<open>The JSON body of the 200 answer. \<open>based_on\<close> is the number interpolated into
  the text \<^verbatim>\<open>'<n> rated songs'\<close>; the constant \<^verbatim>\<open>source\<close> entry is left out.\<close>

record payload =
  recommendations :: "recommendation list"
  count_field :: nat
  based_on :: nat

datatype exn =
  ZeroDivisionError | KeyError | IndexError | StopIteration | ValueError
  | InvalidDimension | InvalidK

type_synonym http_error = "nat \<times> string"

text \<open>The fitted standardisation parameters; the handler only tests the handle.\<close>

record scaler =
  mean_params :: vec
  scale_params :: vec

text \<open>The nearest-neighbour index: the vectors it was built over, in catalog order, and
  their coordinate count.\<close>

record knn =
  fit_X :: "vec list"
  n_features :: nat

text \<open>The dictionary pickled in \<^verbatim>\<open>recommender_data.pkl\<close>; \<open>None\<close> is a missing key.\<close>

record data_dict =
  dd_df :: "dataframe option"
  dd_scaled_features :: "vec list option"
  dd_feature_cols :: "string list option"

text \<open>The files under \<^verbatim>\<open>ml/\<close>; \<open>None\<close> is a file that is missing or does not
  unpickle.\<close>

record artifacts =
  recommender_knn_pkl :: "knn option"
  recommender_scaler_pkl :: "scaler option"
  recommender_data_pkl :: "data_dict option"

text \<open>The module-level globals of lines 368--373.\<close>

record service =
  knn_model :: "knn option"
  scaler :: "scaler option"
  recommender_data :: "data_dict option"
  recommender_df :: "dataframe option"
  scaled_features :: "vec list option"
  feature_cols :: "string list option"

definition init_service :: service where
  "init_service = \<lparr>knn_model = None, scaler = None, recommender_data = None,
     recommender_df = None, scaled_features = None, feature_cols = None\<rparr>"

subsection \<open>Loading\<close>

text \<open>\<^verbatim>\<open>load_recommender_models\<close>: each global is assigned as soon as its value is
  read, so an exception in a later step leaves the earlier assignments in place. The
  result is the returned flag and the globals after the call.\<close>

definition load_recommender_models :: "artifacts \<Rightarrow> service \<Rightarrow> bool \<times> service" where
  "load_recommender_models ml s =
     (case recommender_knn_pkl ml of
        None \<Rightarrow> (False, s)
      | Some m \<Rightarrow>
          let s1 = s\<lparr>knn_model := Some m\<rparr> in
          (case recommender_scaler_pkl ml of
             None \<Rightarrow> (False, s1)
           | Some sc \<Rightarrow>
               let s2 = s1\<lparr>scaler := Some sc\<rparr> in
               (case recommender_data_pkl ml of
                  None \<Rightarrow> (False, s2)
                | Some d \<Rightarrow>
                    let s3 = s2\<lparr>recommender_data := Some d\<rparr> in
                    (case dd_df d of
                       None \<Rightarrow> (False, s3)
                     | Some df \<Rightarrow>
                         let s4 = s3\<lparr>recommender_df := Some df\<rparr> in
                         (case dd_scaled_features d of
                            None \<Rightarrow> (False, s4)
                          | Some sf \<Rightarrow>
                              let s5 = s4\<lparr>scaled_features := Some sf\<rparr> in
                              (case dd_feature_cols d of
                                 None \<Rightarrow> (False, s5)
                               | Some fc \<Rightarrow> (True, s5\<lparr>feature_cols := Some fc\<rparr>)))))))"

subsection \<open>Building the user profile (lines 419--436)\<close>

text \<open>\<^verbatim>\<open>r.get(key)\<close>: \<^verbatim>\<open>None\<close> for an absent key and for \<^verbatim>\<open>null\<close>.\<close>

fun dict_get :: "jfield \<Rightarrow> int option" where
  "dict_get Absent = None"
| "dict_get Null = None"
| "dict_get (Num i) = Some i"

text \<open>\<^verbatim>\<open>r[key]\<close>: raises \<^verbatim>\<open>KeyError\<close> for an absent key.\<close>

fun dict_getitem :: "jfield \<Rightarrow> exn + int option" where
  "dict_getitem Absent = Inl KeyError"
| "dict_getitem Null = Inr None"
| "dict_getitem (Num i) = Inr (Some i)"

text \<open>\<^verbatim>\<open>Index.get_loc\<close> on an index of unique labels: the position of the label,
  \<^verbatim>\<open>KeyError\<close> when there is none.\<close>

fun get_loc :: "int list \<Rightarrow> int \<Rightarrow> exn + nat" where
  "get_loc [] x = Inl KeyError"
| "get_loc (l # ls) x =
     (if l = x then Inr 0
      else (case get_loc ls x of Inl e \<Rightarrow> Inl e | Inr n \<Rightarrow> Inr (Suc n)))"

text \<open>The loop of lines 423--430, with the two lists it appends to.
  \<^verbatim>\<open>scaled_features[loc]\<close> raises \<^verbatim>\<open>IndexError\<close> past the last row.\<close>

fun profile_loop ::
  "dataframe \<Rightarrow> vec list \<Rightarrow> rating list \<Rightarrow> vec list \<Rightarrow> int list \<Rightarrow> exn + (vec list \<times> int list)"
where
  "profile_loop df sf [] rated_features weights = Inr (rated_features, weights)"
| "profile_loop df sf (r # rs) rated_features weights =
     (case (dict_get (df_index r), dict_get (rating r)) of
        (Some i, Some v) \<Rightarrow>
          if i \<in> set (index df) then
            (case get_loc (index df) i of
               Inl e \<Rightarrow> Inl e
             | Inr loc \<Rightarrow>
                 if loc < length sf
                 then profile_loop df sf rs (rated_features @ [sf ! loc]) (weights @ [v - 3])
                 else Inl IndexError)
          else profile_loop df sf rs rated_features weights
      | _ \<Rightarrow> profile_loop df sf rs rated_features weights)"

text \<open>\<^verbatim>\<open>np.average(a, axis=0, weights=wgt)\<close> for a two-dimensional \<open>a\<close> (one row per
  entry of \<open>wgt\<close>): numpy first sums the weights and raises \<^verbatim>\<open>ZeroDivisionError\<close>
  when the sum is zero; otherwise coordinate \<open>j\<close> of the result is
  \<open>(\<Sum>i. a[i][j] * wgt[i]) / (\<Sum>i. wgt[i])\<close>. The number of coordinates is the row
  length of the array. The sums are taken in exact arithmetic: numpy adds the float64
  rows in batch order and rounds at each step, which this definition leaves out.\<close>

definition np_average :: "vec list \<Rightarrow> int list \<Rightarrow> exn + vec" where
  "np_average a wgt =
     (let scl = real_of_int (sum_list wgt) in
      if scl = 0 then Inl ZeroDivisionError
      else Inr (map (\<lambda>j. sum_list (map2 (\<lambda>row w. row ! j * real_of_int w) a wgt) / scl)
                  [0..<(case a of [] \<Rightarrow> 0 | row # _ \<Rightarrow> length row)]))"

text \<open>Lines 419--436: the profile vector, the 400 answer when no rating was kept, or
  the exception raised on the way.\<close>

definition user_profile :: "dataframe \<Rightarrow> vec list \<Rightarrow> rating list \<Rightarrow> exn + (http_error + vec)" where
  "user_profile df sf ratings =
     (case profile_loop df sf ratings [] [] of
        Inl e \<Rightarrow> Inl e
      | Inr (rated_features, weights) \<Rightarrow>
          if rated_features = []
          then Inr (Inl (400, ''Could not find any of the rated songs in the dataset''))
          else (case np_average rated_features weights of
                  Inl e \<Rightarrow> Inl e
                | Inr p \<Rightarrow> Inr (Inr p)))"

subsection \<open>The distance index\<close>

definition euclidean :: "vec \<Rightarrow> vec \<Rightarrow> real" where
  "euclidean q x = sqrt (sum_list (map2 (\<lambda>a b. (a - b) ^ 2) q x))"

text \<open>Modelled from the spec: the pickled \<^verbatim>\<open>knn_model\<close> and its \<^verbatim>\<open>kneighbors\<close> method
  are built by \<^verbatim>\<open>backend/train_recommender.py\<close>, which is not among the sources. The
  specification's Distance Index (section 4.2) is: Euclidean distance; the query fails
  with \<open>InvalidDimension\<close> when the query's length is not the store's coordinate count;
  \<open>k\<close> must be at least 1; a \<open>k\<close> above the catalog size is clamped; the answer is
  sorted ascending by distance, ties in catalog order. As in the source, the answer is
  the pair of the distances and the catalog positions.\<close>

definition kneighbors :: "knn \<Rightarrow> vec \<Rightarrow> int \<Rightarrow> exn + (real list \<times> nat list)" where
  "kneighbors m Q n_neighbors =
     (if length Q \<noteq> n_features m then Inl InvalidDimension
      else if n_neighbors < 1 then Inl InvalidK
      else
        let ranked = take (nat n_neighbors)
              (sort_key fst (zip (map (euclidean Q) (fit_X m)) [0..<length (fit_X m)]))
        in Inr (map fst ranked, map snd ranked))"

subsection \<open>Formatting the answer (lines 441--469)\<close>

text \<open>Line 442: the set comprehension raises \<^verbatim>\<open>KeyError\<close> at the first rating object
  without a \<^verbatim>\<open>df_index\<close> key; a \<^verbatim>\<open>null\<close> is collected as \<^verbatim>\<open>None\<close>.\<close>

fun rated_df_indices :: "rating list \<Rightarrow> exn + int option set" where
  "rated_df_indices [] = Inr {}"
| "rated_df_indices (r # rs) =
     (case dict_getitem (df_index r) of
        Inl e \<Rightarrow> Inl e
      | Inr v \<Rightarrow> (case rated_df_indices rs of Inl e \<Rightarrow> Inl e | Inr S \<Rightarrow> Inr (insert v S)))"

text \<open>\<^verbatim>\<open>int(song.get(col, 0))\<close> of lines 458--459: 0 for a column the frame does not
  have, the number of the cell, and \<^verbatim>\<open>ValueError\<close> for a \<^verbatim>\<open>NaN\<close> cell.\<close>

fun int_of_cell :: "cell option \<Rightarrow> exn + int" where
  "int_of_cell None = Inr 0"
| "int_of_cell (Some NaN) = Inl ValueError"
| "int_of_cell (Some (Value v)) = Inr v"

text \<open>The dictionary of lines 455--462; its entries are evaluated in order, so the
  conversion of \<^verbatim>\<open>year\<close> comes before that of \<^verbatim>\<open>popularity\<close>.\<close>

definition make_recommendation :: "song \<Rightarrow> real \<Rightarrow> exn + recommendation" where
  "make_recommendation song dist_val =
     (case int_of_cell (year song) of
        Inl e \<Rightarrow> Inl e
      | Inr y \<Rightarrow>
          (case int_of_cell (popularity song) of
             Inl e \<Rightarrow> Inl e
           | Inr p \<Rightarrow>
               Inr \<lparr>rec_track_name = (case track_name song of None \<Rightarrow> ''Unknown'' | Some t \<Rightarrow> t),
                    rec_artists = (case artists song of None \<Rightarrow> ''Unknown'' | Some a \<Rightarrow> a),
                    rec_year = y,
                    rec_popularity = p,
                    rec_track_genre = (case track_genre song of None \<Rightarrow> ''N/A'' | Some g \<Rightarrow> g),
                    similarity_score = 1 - dist_val\<rparr>))"

text \<open>The loop of lines 447--462 over \<^verbatim>\<open>indices\<close>, with \<^verbatim>\<open>dist_iter\<close> as the list of
  distances not yet consumed and \<^verbatim>\<open>recommendations\<close> as the accumulator. The test of
  line 448 comes before \<^verbatim>\<open>next(dist_iter)\<close>, which raises \<^verbatim>\<open>StopIteration\<close> on an
  exhausted iterator; \<^verbatim>\<open>recommender_df.index[i]\<close> raises \<^verbatim>\<open>IndexError\<close> past the
  last row; building the record of an unrated candidate may raise \<^verbatim>\<open>ValueError\<close>.\<close>

fun rec_loop ::
  "dataframe \<Rightarrow> int option set \<Rightarrow> int \<Rightarrow> nat list \<Rightarrow> real list \<Rightarrow> recommendation list
     \<Rightarrow> exn + recommendation list"
where
  "rec_loop df rated top_k [] dist_iter recs = Inr recs"
| "rec_loop df rated top_k (i # is) dist_iter recs =
     (if int (length recs) \<ge> top_k then Inr recs
      else (case dist_iter of
              [] \<Rightarrow> Inl StopIteration
            | dist_val # dist_iter' \<Rightarrow>
                if i < length df then
                  (if Some (fst (df ! i)) \<notin> rated
                   then (case make_recommendation (snd (df ! i)) dist_val of
                           Inl e \<Rightarrow> Inl e
                         | Inr r \<Rightarrow> rec_loop df rated top_k is dist_iter' (recs @ [r]))
                   else rec_loop df rated top_k is dist_iter' recs)
                else Inl IndexError))"

subsection \<open>The request handler\<close>

text \<open>The body of the \<^verbatim>\<open>try\<close> block (lines 412--469): an exception, an early 400
  answer, or the 200 payload. \<^verbatim>\<open>data.get('ratings', [])\<close> and
  \<^verbatim>\<open>data.get('top_k', 10)\<close> supply the defaults.\<close>

definition try_block :: "knn \<Rightarrow> dataframe \<Rightarrow> vec list \<Rightarrow> request \<Rightarrow> exn + (http_error + payload)" where
  "try_block m df sf data =
     (let ratings = (case ratings_key data of None \<Rightarrow> [] | Some rs \<Rightarrow> rs);
          top_k = (case top_k_key data of None \<Rightarrow> 10 | Some k \<Rightarrow> k)
      in
      if ratings = [] then Inr (Inl (400, ''No ratings provided''))
      else
        (case user_profile df sf ratings of
           Inl e \<Rightarrow> Inl e
         | Inr (Inl err) \<Rightarrow> Inr (Inl err)
         | Inr (Inr profile) \<Rightarrow>
             (case kneighbors m profile (top_k * 2) of
                Inl e \<Rightarrow> Inl e
              | Inr (distances, indices) \<Rightarrow>
                  (case rated_df_indices ratings of
                     Inl e \<Rightarrow> Inl e
                   | Inr rated \<Rightarrow>
                       (case rec_loop df rated top_k indices distances [] of
                          Inl e \<Rightarrow> Inl e
                        | Inr recs \<Rightarrow>
                            Inr (Inr \<lparr>recommendations = recs, count_field = length recs,
                                      based_on = length ratings\<rparr>))))))"

text \<open>\<^verbatim>\<open>submit_ratings_and_recommend\<close>: the check of lines 408--409 on the four handles
  (a loaded model or scaler object is truthy), then the \<^verbatim>\<open>try\<close> block with its
  catch-all of lines 471--473.\<close>

definition submit_ratings_and_recommend :: "service \<Rightarrow> request \<Rightarrow> http_error + payload" where
  "submit_ratings_and_recommend s data =
     (case (knn_model s, scaler s, recommender_df s, scaled_features s) of
        (Some m, Some sc, Some df, Some sf) \<Rightarrow>
          (case try_block m df sf data of
             Inl e \<Rightarrow> Inl (500, ''Failed to generate recommendations'')
           | Inr answer \<Rightarrow> answer)
      | _ \<Rightarrow> Inl (503, ''Recommender system not initialized''))"

subsection \<open>Notions used to state the properties\<close>

text \<open>The test of line 427: the rating object has an identity and a score, and the
  identity is a label of the frame. A rating that fails it is skipped by the loop.\<close>

definition survives :: "dataframe \<Rightarrow> rating \<Rightarrow> bool" where
  "survives df r =
     (case (dict_get (df_index r), dict_get (rating r)) of
        (Some i, Some v) \<Rightarrow> i \<in> set (index df)
      | _ \<Rightarrow> False)"

text \<open>The position line 428 computes for a rating, and the weight of line 430.\<close>

definition loc_of :: "dataframe \<Rightarrow> rating \<Rightarrow> nat" where
  "loc_of df r =
     (case dict_get (df_index r) of
        Some i \<Rightarrow> (case get_loc (index df) i of Inr n \<Rightarrow> n | Inl e \<Rightarrow> 0)
      | None \<Rightarrow> 0)"

definition weight_of :: "rating \<Rightarrow> int" where
  "weight_of r = (case dict_get (rating r) of Some v \<Rightarrow> v - 3 | None \<Rightarrow> 0)"

text \<open>The specification's Feature Store lookup \<open>vectorOf(identity)\<close>: the vector stored
  with the identity, \<open>None\<close> for \<open>NotFound\<close>.\<close>

definition vectorOf :: "dataframe \<Rightarrow> vec list \<Rightarrow> int \<Rightarrow> vec option" where
  "vectorOf df sf i = map_of (zip (index df) sf) i"

text \<open>The specification's Profile Builder, in its own words: the ratings whose identity
  the Feature Store knows, each as the pair of its weight \<open>score - 3\<close> and its feature
  vector; and the weighted arithmetic mean of such pairs, coordinate by coordinate.\<close>

definition centred_pairs :: "dataframe \<Rightarrow> vec list \<Rightarrow> rating list \<Rightarrow> (int \<times> vec) list" where
  "centred_pairs df sf rs =
     List.map_filter
       (\<lambda>r. case (df_index r, rating r) of
              (Num i, Num score) \<Rightarrow>
                (case vectorOf df sf i of Some x \<Rightarrow> Some (score - 3, x) | None \<Rightarrow> None)
            | _ \<Rightarrow> None) rs"

definition weighted_mean :: "(int \<times> vec) list \<Rightarrow> vec" where
  "weighted_mean wxs =
     map (\<lambda>j. (\<Sum>(w, x)\<leftarrow>wxs. real_of_int w * x ! j) / real_of_int (\<Sum>(w, x)\<leftarrow>wxs. w))
       [0..<(case wxs of [] \<Rightarrow> 0 | (w, x) # _ \<Rightarrow> length x)]"

text \<open>A fetched candidate (catalog position and distance) is unrated when no rating
  object of the batch carries the identity at that position.\<close>

definition unrated :: "dataframe \<Rightarrow> rating list \<Rightarrow> nat \<times> real \<Rightarrow> bool" where
  "unrated df rs c = (\<forall>r \<in> set rs. df_index r \<noteq> Num (fst (df ! fst c)))"

text \<open>The candidates the handler fetches for a batch: the answer of the index to the
  profile of the batch for \<open>top_k * 2\<close> neighbours, as (position, distance) pairs in
  the order of the answer; none when no profile is built or the query fails.\<close>

definition candidates :: "knn \<Rightarrow> dataframe \<Rightarrow> vec list \<Rightarrow> rating list \<Rightarrow> int \<Rightarrow> (nat \<times> real) list" where
  "candidates m df sf rs top_k =
     (case user_profile df sf rs of
        Inr (Inr profile) \<Rightarrow>
          (case kneighbors m profile (top_k * 2) of
             Inr (distances, indices) \<Rightarrow> zip indices distances
           | Inl e \<Rightarrow> [])
      | _ \<Rightarrow> [])"

definition format_candidate :: "dataframe \<Rightarrow> nat \<times> real \<Rightarrow> exn + recommendation" where
  "format_candidate df c = make_recommendation (snd (df ! fst c)) (snd c)"

text \<open>The candidates the loop of lines 447--462 keeps: the first \<open>top_k\<close> fetched
  candidates that are unrated.\<close>

definition picked :: "knn \<Rightarrow> dataframe \<Rightarrow> vec list \<Rightarrow> rating list \<Rightarrow> int \<Rightarrow> (nat \<times> real) list" where
  "picked m df sf rs top_k =
     take (nat top_k) (filter (unrated df rs) (candidates m df sf rs top_k))"

text \<open>The load reaches the assignment of \<^verbatim>\<open>scaled_features\<close>: the three files
  unpickle and the data dictionary has its \<^verbatim>\<open>df\<close> and \<^verbatim>\<open>scaled_features\<close> keys.\<close>

definition reaches_scaled_features :: "artifacts \<Rightarrow> bool" where
  "reaches_scaled_features ml =
     (case (recommender_knn_pkl ml, recommender_scaler_pkl ml, recommender_data_pkl ml) of
        (Some m, Some sc, Some d) \<Rightarrow> dd_df d \<noteq> None \<and> dd_scaled_features d \<noteq> None
      | _ \<Rightarrow> False)"

subsection \<open>A five-track catalog\<close>

text \<open>The catalog of the specification's concrete scenario: five tracks with the
  vectors \<open>[0,0], [1,0], [0,1], [5,5], [5,6]\<close> and the identities 0 to 4.\<close>

definition song5 :: song where
  "song5 = \<lparr>track_name = Some ''t'', artists = Some ''a'', year = Some (Value 2020),
     popularity = Some (Value 50), track_genre = None\<rparr>"

text \<open>The record the handler returns for a track of this catalog at a given distance.\<close>

definition rec5 :: "real \<Rightarrow> recommendation" where
  "rec5 d = \<lparr>rec_track_name = ''t'', rec_artists = ''a'', rec_year = 2020,
     rec_popularity = 50, rec_track_genre = ''N/A'', similarity_score = 1 - d\<rparr>"

definition vectors5 :: "vec list" where
  "vectors5 = [[0, 0], [1, 0], [0, 1], [5, 5], [5, 6]]"

definition df5 :: dataframe where
  "df5 = [(0, song5), (1, song5), (2, song5), (3, song5), (4, song5)]"

definition knn5 :: knn where
  "knn5 = \<lparr>fit_X = vectors5, n_features = 2\<rparr>"

definition scaler5 :: scaler where
  "scaler5 = \<lparr>mean_params = [0, 0], scale_params = [1, 1]\<rparr>"

definition service5 :: service where
  "service5 = \<lparr>knn_model = Some knn5, scaler = Some scaler5, recommender_data = None,
     recommender_df = Some df5, scaled_features = Some vectors5, feature_cols = None\<rparr>"

definition rate :: "int \<Rightarrow> int \<Rightarrow> rating" where
  "rate i score = \<lparr>df_index = Num i, rating = Num score\<rparr>"

definition ask :: "rating list \<Rightarrow> int \<Rightarrow> request" where
  "ask rs k = \<lparr>ratings_key = Some rs, top_k_key = Some k\<rparr>"

text \<open>The same catalog with a missing \<^verbatim>\<open>year\<close> in the row of track 1.\<close>

definition df5_nan :: dataframe where
  "df5_nan = [(0, song5), (1, song5\<lparr>year := Some NaN\<rparr>), (2, song5), (3, song5), (4, song5)]"

definition service5_nan :: service where
  "service5_nan = service5\<lparr>recommender_df := Some df5_nan\<rparr>"

text \<open>Two states of the \<^verbatim>\<open>ml/\<close> directory: one whose data dictionary lacks the
  \<^verbatim>\<open>feature_cols\<close> key, one without the scaler file.\<close>

definition ml_without_feature_cols :: artifacts where
  "ml_without_feature_cols =
     \<lparr>recommender_knn_pkl = Some knn5, recommender_scaler_pkl = Some scaler5,
      recommender_data_pkl =
        Some \<lparr>dd_df = Some df5, dd_scaled_features = Some vectors5, dd_feature_cols = None\<rparr>\<rparr>"

definition ml_without_scaler :: artifacts where
  "ml_without_scaler =
     \<lparr>recommender_knn_pkl = Some knn5, recommender_scaler_pkl = None,
      recommender_data_pkl =
        Some \<lparr>dd_df = Some df5, dd_scaled_features = Some vectors5,
              dd_feature_cols = Some [''x'', ''y'']\<rparr>\<rparr>"

section \<open>Properties\<close>

subsection \<open>The availability check\<close>

lemma try_block_not_503:
  "try_block m df sf data \<noteq> Inr (Inl (503, msg))"
  by (auto simp: try_block_def user_profile_def Let_def
      split: option.splits sum.splits prod.splits if_splits)

lemma submit_503_iff:
  "submit_ratings_and_recommend s data = Inl (503, ''Recommender system not initialized'')
   \<longleftrightarrow> knn_model s = None \<or> scaler s = None \<or> recommender_df s = None \<or> scaled_features s = None"
  using try_block_not_503
  by (auto simp: submit_ratings_and_recommend_def split: option.splits sum.splits)

text \<open>
  Claim C9, as amended. Before any load every query is answered with 503. After a load
  from the initial state, a query is answered with 503 exactly when the load did not
  reach the assignment of \<^verbatim>\<open>scaled_features\<close> (a file missing or unreadable, or the
  data dictionary without \<^verbatim>\<open>df\<close> or \<^verbatim>\<open>scaled_features\<close>); and a load that
  reports success has reached it. The check of line 408 tests the four handles the load assigns up
  to that point, not the flag the load returns.
\<close>

theorem unavailable_until_handles_loaded:
  "submit_ratings_and_recommend init_service data
     = Inl (503, ''Recommender system not initialized'')
   \<and> (submit_ratings_and_recommend (snd (load_recommender_models ml init_service)) data
        = Inl (503, ''Recommender system not initialized'')
      \<longleftrightarrow> \<not> reaches_scaled_features ml)
   \<and> (fst (load_recommender_models ml init_service) \<longrightarrow> reaches_scaled_features ml)"
  unfolding submit_503_iff
  by (auto simp: init_service_def load_recommender_models_def reaches_scaled_features_def Let_def
      split: option.splits)

theorem unavailable_until_handles_loaded_witness:
  "\<not> fst (load_recommender_models ml_without_scaler init_service)
   \<and> submit_ratings_and_recommend (snd (load_recommender_models ml_without_scaler init_service))
       (ask [rate 0 5] 2) = Inl (503, ''Recommender system not initialized'')"
  using unavailable_until_handles_loaded [of "ask [rate 0 5] 2" ml_without_scaler]
  by (simp add: reaches_scaled_features_def ml_without_scaler_def)

text \<open>
  Against claim C9 as stated: with a data dictionary that lacks \<^verbatim>\<open>feature_cols\<close> the
  load fails (it returns \<^verbatim>\<open>False\<close>), yet the four handles are set and the query is
  computed.
\<close>

theorem failed_load_still_serves:
  "fst (load_recommender_models ml_without_feature_cols init_service) = False
   \<and> submit_ratings_and_recommend (snd (load_recommender_models ml_without_feature_cols init_service))
       (ask [rate 0 5] 2)
     = Inr \<lparr>recommendations = [rec5 1, rec5 1], count_field = 2, based_on = 1\<rparr>"
  by (simp add: load_recommender_models_def ml_without_feature_cols_def init_service_def
      submit_ratings_and_recommend_def try_block_def user_profile_def ask_def rate_def
      df5_def vectors5_def knn5_def index_def np_average_def kneighbors_def euclidean_def
      make_recommendation_def song5_def rec5_def)

subsection \<open>The profile loop\<close>

lemma get_loc_mem:
  "x \<in> set ls \<Longrightarrow> \<exists>n. get_loc ls x = Inr n \<and> n < length ls \<and> ls ! n = x"
  by (induction ls) auto

lemma profile_loop_eq:
  "profile_loop df sf rs fs ws =
     (if \<forall>r \<in> set rs. survives df r \<longrightarrow> loc_of df r < length sf
      then Inr (fs @ map (\<lambda>r. sf ! loc_of df r) (filter (survives df) rs),
                ws @ map weight_of (filter (survives df) rs))
      else Inl IndexError)"
proof (induction rs arbitrary: fs ws)
  case Nil
  show ?case by simp
next
  case (Cons r rs)
  show ?case
  proof (cases "survives df r")
    case False
    then have "profile_loop df sf (r # rs) fs ws = profile_loop df sf rs fs ws"
      by (auto simp: survives_def split: option.splits)
    with False Cons show ?thesis by simp
  next
    case True
    then obtain i v where iv: "dict_get (df_index r) = Some i" "dict_get (rating r) = Some v"
      "i \<in> set (index df)"
      by (auto simp: survives_def split: option.splits)
    then obtain n where n: "get_loc (index df) i = Inr n"
      using get_loc_mem by blast
    have loc: "loc_of df r = n" using iv n by (simp add: loc_of_def)
    have w: "weight_of r = v - 3" using iv by (simp add: weight_of_def)
    show ?thesis
    proof (cases "n < length sf")
      case False
      then show ?thesis using iv n True loc by auto
    next
      case lt: True
      have "profile_loop df sf (r # rs) fs ws
            = profile_loop df sf rs (fs @ [sf ! n]) (ws @ [v - 3])"
        using iv n lt by simp
      then show ?thesis using True loc w lt Cons by simp
    qed
  qed
qed

lemma user_profile_eq:
  "user_profile df sf rs =
     (if \<forall>r \<in> set rs. survives df r \<longrightarrow> loc_of df r < length sf
      then (if filter (survives df) rs = []
            then Inr (Inl (400, ''Could not find any of the rated songs in the dataset''))
            else (case np_average (map (\<lambda>r. sf ! loc_of df r) (filter (survives df) rs))
                         (map weight_of (filter (survives df) rs)) of
                    Inl e \<Rightarrow> Inl e
                  | Inr p \<Rightarrow> Inr (Inr p)))
      else Inl IndexError)"
proof (cases "\<forall>r \<in> set rs. survives df r \<longrightarrow> loc_of df r < length sf")
  case True
  then have "profile_loop df sf rs [] [] =
      Inr (map (\<lambda>r. sf ! loc_of df r) (filter (survives df) rs),
           map weight_of (filter (survives df) rs))"
    by (simp add: profile_loop_eq)
  then show ?thesis using True by (simp add: user_profile_def)
next
  case False
  then have "profile_loop df sf rs [] [] = Inl IndexError"
    by (simp only: profile_loop_eq if_False)
  then show ?thesis using False by (simp only: user_profile_def if_False sum.case)
qed

lemma user_profile_400:
  "(\<exists>msg. user_profile df sf rs = Inr (Inl (400, msg))) \<longleftrightarrow> filter (survives df) rs = []"
proof
  assume "\<exists>msg. user_profile df sf rs = Inr (Inl (400, msg))"
  then show "filter (survives df) rs = []"
    unfolding user_profile_eq by (auto split: if_splits sum.splits)
next
  assume e: "filter (survives df) rs = []"
  then have "\<forall>r \<in> set rs. survives df r \<longrightarrow> loc_of df r < length sf"
    by (simp add: filter_empty_conv)
  then show "\<exists>msg. user_profile df sf rs = Inr (Inl (400, msg))"
    unfolding user_profile_eq using e by simp
qed

lemma user_profile_err:
  "user_profile df sf rs = Inr (Inl err) \<Longrightarrow> fst err = 400"
  unfolding user_profile_eq by (auto split: sum.splits if_splits)

lemma try_block_400:
  "(\<exists>msg. try_block m df sf \<lparr>ratings_key = Some rs, top_k_key = k\<rparr> = Inr (Inl (400, msg)))
   \<longleftrightarrow> filter (survives df) rs = []"
proof (cases "rs = []")
  case True
  then show ?thesis by (simp add: try_block_def)
next
  case False
  have "(\<exists>msg. try_block m df sf \<lparr>ratings_key = Some rs, top_k_key = k\<rparr> = Inr (Inl (400, msg)))
        \<longleftrightarrow> (\<exists>msg. user_profile df sf rs = Inr (Inl (400, msg)))"
    using False
    by (auto simp: try_block_def Let_def split: sum.splits prod.splits)
  then show ?thesis by (simp only: user_profile_400)
qed

lemma submit_ready:
  assumes "knn_model s = Some m" "scaler s = Some sc"
    "recommender_df s = Some df" "scaled_features s = Some sf"
  shows "submit_ratings_and_recommend s data =
           (case try_block m df sf data of
              Inl e \<Rightarrow> Inl (500, ''Failed to generate recommendations'')
            | Inr answer \<Rightarrow> answer)"
  using assms by (simp add: submit_ratings_and_recommend_def)

lemma try_block_raises:
  assumes "rs \<noteq> []" "user_profile df sf rs = Inl e"
  shows "try_block m df sf \<lparr>ratings_key = Some rs, top_k_key = k\<rparr> = Inl e"
  using assms by (simp add: try_block_def)

lemma np_average_zero:
  "sum_list wgt = 0 \<Longrightarrow> np_average a wgt = Inl ZeroDivisionError"
  by (simp add: np_average_def)

lemma rated_df_indices_Absent:
  "r \<in> set rs \<Longrightarrow> df_index r = Absent \<Longrightarrow> rated_df_indices rs = Inl KeyError"
proof (induction rs)
  case Nil
  then show ?case by simp
next
  case (Cons a rs)
  show ?case
  proof (cases "df_index a")
    case Absent
    then show ?thesis by simp
  next
    case Null
    then have "r \<in> set rs" using Cons.prems by auto
    then show ?thesis using Cons Null by simp
  next
    case (Num i)
    then have "r \<in> set rs" using Cons.prems by auto
    then show ?thesis using Cons Num by simp
  qed
qed

subsection \<open>Dropped ratings and the empty batch\<close>

text \<open>
  Claim C4. On a service that passes the availability check, the profile of a batch is the profile of
  its surviving ratings (the others are dropped silently), and the request is answered
  with a 400 rejection exactly when no rating survives. A rating object survives the test
  of line 427 when it carries an identity and a score and the identity is in the Feature
  Store; so for a batch in which every rating carries a score, the 400 rejection occurs
  exactly when no rating names a known identity.
\<close>

theorem empty_input_iff_nothing_survives:
  assumes "knn_model s = Some m" "scaler s = Some sc"
    "recommender_df s = Some df" "scaled_features s = Some sf"
  shows "user_profile df sf rs = user_profile df sf (filter (survives df) rs)
    \<and> ((\<exists>msg. submit_ratings_and_recommend s \<lparr>ratings_key = Some rs, top_k_key = k\<rparr>
               = Inl (400, msg))
        \<longleftrightarrow> filter (survives df) rs = [])
    \<and> ((\<forall>r \<in> set rs. \<exists>v. rating r = Num v) \<longrightarrow>
        ((\<exists>msg. submit_ratings_and_recommend s \<lparr>ratings_key = Some rs, top_k_key = k\<rparr>
               = Inl (400, msg))
         \<longleftrightarrow> \<not> (\<exists>r \<in> set rs. \<exists>i. df_index r = Num i \<and> i \<in> set (index df))))"
proof -
  have "(\<forall>r \<in> set (filter (survives df) rs). survives df r \<longrightarrow> loc_of df r < length sf)
        \<longleftrightarrow> (\<forall>r \<in> set rs. survives df r \<longrightarrow> loc_of df r < length sf)"
    by auto
  moreover have "filter (survives df) (filter (survives df) rs) = filter (survives df) rs"
    by simp
  ultimately have drop: "user_profile df sf rs = user_profile df sf (filter (survives df) rs)"
    by (simp only: user_profile_eq)
  have "(\<exists>msg. submit_ratings_and_recommend s \<lparr>ratings_key = Some rs, top_k_key = k\<rparr>
               = Inl (400, msg))
        \<longleftrightarrow> (\<exists>msg. try_block m df sf \<lparr>ratings_key = Some rs, top_k_key = k\<rparr>
               = Inr (Inl (400, msg)))"
    by (auto simp: submit_ready [OF assms] split: sum.splits)
  then have iff: "(\<exists>msg. submit_ratings_and_recommend s \<lparr>ratings_key = Some rs, top_k_key = k\<rparr>
               = Inl (400, msg)) \<longleftrightarrow> filter (survives df) rs = []"
    by (simp only: try_block_400)
  have wf: "(\<forall>r \<in> set rs. \<exists>v. rating r = Num v) \<Longrightarrow>
     filter (survives df) rs = [] \<longleftrightarrow> \<not> (\<exists>r \<in> set rs. \<exists>i. df_index r = Num i \<and> i \<in> set (index df))"
  proof -
    assume a: "\<forall>r \<in> set rs. \<exists>v. rating r = Num v"
    have "\<And>r. r \<in> set rs \<Longrightarrow> survives df r \<longleftrightarrow> (\<exists>i. df_index r = Num i \<and> i \<in> set (index df))"
    proof -
      fix r assume "r \<in> set rs"
      then obtain v where "rating r = Num v" using a by blast
      then show "survives df r \<longleftrightarrow> (\<exists>i. df_index r = Num i \<and> i \<in> set (index df))"
        by (cases "df_index r") (simp_all add: survives_def)
    qed
    then show ?thesis by (auto simp: filter_empty_conv)
  qed
  show ?thesis using drop iff wf by blast
qed

theorem empty_input_iff_nothing_survives_witness:
  "submit_ratings_and_recommend service5 (ask [rate 7 5, rate 9 1] 2)
     = Inl (400, ''Could not find any of the rated songs in the dataset'')
   \<and> user_profile df5 vectors5 [rate 7 5, rate 0 5] = user_profile df5 vectors5 [rate 0 5]"
proof -
  have f1: "filter (survives df5) [rate 7 5, rate 9 1] = []"
    by (simp add: survives_def rate_def df5_def index_def)
  have f2: "filter (survives df5) [rate 7 5, rate 0 5] = [rate 0 5]"
    by (simp add: survives_def rate_def df5_def index_def)
  have g: "knn_model service5 = Some knn5" "scaler service5 = Some scaler5"
    "recommender_df service5 = Some df5" "scaled_features service5 = Some vectors5"
    by (simp_all add: service5_def)
  from empty_input_iff_nothing_survives [OF g, of "[rate 7 5, rate 9 1]" "Some 2"] f1
  obtain msg where m: "submit_ratings_and_recommend service5 (ask [rate 7 5, rate 9 1] 2)
     = Inl (400, msg)"
    unfolding ask_def by auto
  have "submit_ratings_and_recommend service5 (ask [rate 7 5, rate 9 1] 2)
     = Inl (400, ''Could not find any of the rated songs in the dataset'')"
    by (simp add: submit_ratings_and_recommend_def service5_def try_block_def user_profile_def
        ask_def rate_def df5_def index_def)
  moreover have "user_profile df5 vectors5 [rate 7 5, rate 0 5] = user_profile df5 vectors5 [rate 0 5]"
    using empty_input_iff_nothing_survives [OF g, of "[rate 7 5, rate 0 5]"] f2 by simp
  ultimately show ?thesis by simp
qed

subsection \<open>Batches of midpoint scores\<close>

text \<open>
  Claim C5, as amended. For a non-empty batch of known identities in which every score is
  the midpoint 3, the request fails and no profile is computed; the failure is the
  generic 500 answer of the catch-all (numpy raises \<^verbatim>\<open>ZeroDivisionError\<close> for weights
  that sum to zero), not a request-level rejection.
\<close>

theorem midpoint_batch_fails_500:
  assumes "knn_model s = Some m" "scaler s = Some sc"
    "recommender_df s = Some df" "scaled_features s = Some sf"
    and "rs \<noteq> []"
    and "\<forall>r \<in> set rs. rating r = Num 3 \<and> (\<exists>i. df_index r = Num i \<and> i \<in> set (index df))"
  shows "submit_ratings_and_recommend s \<lparr>ratings_key = Some rs, top_k_key = k\<rparr>
           = Inl (500, ''Failed to generate recommendations'')"
proof -
  have all: "\<forall>r \<in> set rs. survives df r"
    using assms(6) by (auto simp: survives_def)
  then have kept: "filter (survives df) rs = rs" by simp
  have "\<forall>r \<in> set rs. weight_of r = 0"
    using assms(6) by (simp add: weight_of_def)
  then have "sum_list (map weight_of rs) = 0"
    by (induction rs) simp_all
  then have z: "np_average (map (\<lambda>r. sf ! loc_of df r) rs) (map weight_of rs) = Inl ZeroDivisionError"
    by (rule np_average_zero)
  have "\<exists>e. user_profile df sf rs = Inl e"
    unfolding user_profile_eq kept using assms(5) z by simp
  then obtain e where "user_profile df sf rs = Inl e" ..
  then have "try_block m df sf \<lparr>ratings_key = Some rs, top_k_key = k\<rparr> = Inl e"
    using assms(5) by (rule try_block_raises [rotated])
  then show ?thesis by (simp add: submit_ready [OF assms(1-4)])
qed

theorem midpoint_batch_fails_500_witness:
  "submit_ratings_and_recommend service5 (ask [rate 0 3, rate 3 3] 2)
     = Inl (500, ''Failed to generate recommendations'')"
proof -
  have g: "knn_model service5 = Some knn5" "scaler service5 = Some scaler5"
    "recommender_df service5 = Some df5" "scaled_features service5 = Some vectors5"
    by (simp_all add: service5_def)
  have ne: "[rate 0 3, rate 3 3] \<noteq> []" by simp
  have h: "\<forall>r \<in> set [rate 0 3, rate 3 3].
      rating r = Num 3 \<and> (\<exists>i. df_index r = Num i \<and> i \<in> set (index df5))"
    by (simp add: rate_def df5_def index_def)
  show ?thesis
    using midpoint_batch_fails_500 [OF g ne h, of "Some 2"] by (simp add: ask_def)
qed

text \<open>
  Against claim C5 as stated: the batch that rates track 0 with the midpoint score gets
  the generic 500 answer, the very answer given to a batch with a malformed rating
  object.
\<close>

theorem midpoint_batch_not_rejected:
  "submit_ratings_and_recommend service5 (ask [rate 0 3] 2)
     = Inl (500, ''Failed to generate recommendations'')
   \<and> submit_ratings_and_recommend service5 (ask [rate 0 3] 2)
     = submit_ratings_and_recommend service5
         (ask [rate 0 5, \<lparr>df_index = Absent, rating = Num 4\<rparr>] 2)"
  by (simp add: submit_ratings_and_recommend_def service5_def try_block_def user_profile_def
      ask_def rate_def df5_def vectors5_def knn5_def index_def np_average_def kneighbors_def
      euclidean_def)

subsection \<open>Rating objects without an identity key\<close>

text \<open>
  Claim C10. On a service that passes the availability check, a batch that holds a valid rating of a
  known identity and a rating object without the \<^verbatim>\<open>df_index\<close> key is answered with the
  generic 500 failure: the profile loop skips the malformed object, but line 442 reads
  the key of every object and raises \<^verbatim>\<open>KeyError\<close>.
\<close>

theorem missing_df_index_aborts:
  assumes "knn_model s = Some m" "scaler s = Some sc"
    "recommender_df s = Some df" "scaled_features s = Some sf"
    and "r1 \<in> set rs" "df_index r1 = Num i" "rating r1 = Num v" "i \<in> set (index df)"
    and "r2 \<in> set rs" "df_index r2 = Absent"
  shows "submit_ratings_and_recommend s \<lparr>ratings_key = Some rs, top_k_key = k\<rparr>
           = Inl (500, ''Failed to generate recommendations'')"
proof -
  have ne: "rs \<noteq> []" using assms(5) by auto
  have "survives df r1" using assms(6-8) by (simp add: survives_def)
  then have kept: "filter (survives df) rs \<noteq> []"
    using assms(5) by (auto simp: filter_empty_conv)
  have no400: "\<And>err. user_profile df sf rs \<noteq> Inr (Inl err)"
  proof
    fix err assume a: "user_profile df sf rs = Inr (Inl err)"
    then have "fst err = 400" by (rule user_profile_err)
    then have "\<exists>msg. user_profile df sf rs = Inr (Inl (400, msg))"
      using a by (cases err) auto
    then show False using kept by (simp only: user_profile_400)
  qed
  have ke: "rated_df_indices rs = Inl KeyError"
    using assms(9,10) by (rule rated_df_indices_Absent)
  have "\<exists>e. try_block m df sf \<lparr>ratings_key = Some rs, top_k_key = k\<rparr> = Inl e"
    using ne no400 ke
    by (auto simp: try_block_def Let_def split: sum.splits prod.splits)
  then show ?thesis by (auto simp: submit_ready [OF assms(1-4)])
qed

theorem missing_df_index_aborts_witness:
  "submit_ratings_and_recommend service5
     (ask [rate 0 5, \<lparr>df_index = Absent, rating = Num 4\<rparr>] 2)
     = Inl (500, ''Failed to generate recommendations'')"
proof -
  have g: "knn_model service5 = Some knn5" "scaler service5 = Some scaler5"
    "recommender_df service5 = Some df5" "scaled_features service5 = Some vectors5"
    by (simp_all add: service5_def)
  show ?thesis
    using missing_df_index_aborts [OF g, of "rate 0 5" "[rate 0 5, \<lparr>df_index = Absent, rating = Num 4\<rparr>]"
        0 5 "\<lparr>df_index = Absent, rating = Num 4\<rparr>" "Some 2"]
    by (simp add: ask_def rate_def df5_def index_def)
qed

subsection \<open>The profile as a weighted mean\<close>

lemma zip_map_same: "zip (map f xs) (map g xs) = map (\<lambda>x. (f x, g x)) xs"
  by (induction xs) simp_all

lemma np_average_map:
  "np_average (map f ks) (map g ks) =
     (if sum_list (map g ks) = 0 then Inl ZeroDivisionError
      else Inr (map (\<lambda>j. sum_list (map (\<lambda>r. f r ! j * real_of_int (g r)) ks)
                          / real_of_int (sum_list (map g ks)))
                  [0..<(case ks of [] \<Rightarrow> 0 | r # _ \<Rightarrow> length (f r))]))"
  by (cases ks) (simp_all add: np_average_def zip_map_same comp_def)

lemma map_of_zip_get_loc:
  "get_loc ls i = Inr n \<Longrightarrow> n < length sf \<Longrightarrow> map_of (zip ls sf) i = Some (sf ! n)"
proof (induction ls arbitrary: n sf)
  case Nil
  then show ?case by simp
next
  case (Cons l ls)
  then obtain x xs where sf: "sf = x # xs" by (cases sf) auto
  show ?case
  proof (cases "l = i")
    case True
    then show ?thesis using Cons.prems sf by simp
  next
    case False
    then obtain k where k: "get_loc ls i = Inr k" "n = Suc k"
      using Cons.prems(1) by (auto split: sum.splits)
    then have "map_of (zip ls xs) i = Some (xs ! k)"
      using Cons.IH [of k xs] Cons.prems(2) sf by simp
    then show ?thesis using False sf k by simp
  qed
qed

lemma map_of_zip_unknown:
  "i \<notin> set ls \<Longrightarrow> map_of (zip ls sf) i = None"
  by (auto simp: map_of_eq_None_iff dest: set_zip_leftD)

lemma centred_pairs_aligned:
  assumes "length sf = length df"
  shows "centred_pairs df sf rs =
           map (\<lambda>r. (weight_of r, sf ! loc_of df r)) (filter (survives df) rs)"
proof (induction rs)
  case Nil
  show ?case by (simp add: centred_pairs_def)
next
  case (Cons r rs)
  have step: "centred_pairs df sf (r # rs) =
      (if survives df r then (weight_of r, sf ! loc_of df r) # centred_pairs df sf rs
       else centred_pairs df sf rs)"
  proof (cases "survives df r")
    case False
    then have "(case (df_index r, rating r) of
              (Num i, Num score) \<Rightarrow>
                (case vectorOf df sf i of Some x \<Rightarrow> Some (score - 3, x) | None \<Rightarrow> None)
            | _ \<Rightarrow> None) = None"
      by (cases "df_index r"; cases "rating r")
         (simp_all add: survives_def vectorOf_def map_of_zip_unknown)
    then show ?thesis using False by (simp add: centred_pairs_def)
  next
    case True
    then obtain i v where iv: "df_index r = Num i" "rating r = Num v" "i \<in> set (index df)"
      by (cases "df_index r"; cases "rating r") (simp_all add: survives_def)
    then obtain n where n: "get_loc (index df) i = Inr n" "n < length (index df)"
      using get_loc_mem by blast
    then have "n < length sf" using assms by (simp add: index_def)
    then have "vectorOf df sf i = Some (sf ! n)"
      unfolding vectorOf_def using n(1) by (rule map_of_zip_get_loc [rotated])
    moreover have "loc_of df r = n" using iv n by (simp add: loc_of_def)
    moreover have "weight_of r = v - 3" using iv by (simp add: weight_of_def)
    ultimately show ?thesis using True iv by (simp add: centred_pairs_def)
  qed
  show ?case unfolding step using Cons by simp
qed

lemma loc_of_in_range:
  assumes "length sf = length df" "survives df r"
  shows "loc_of df r < length sf"
proof -
  from assms(2) obtain i where i: "dict_get (df_index r) = Some i" "i \<in> set (index df)"
    by (auto simp: survives_def split: option.splits)
  then obtain n where "get_loc (index df) i = Inr n" "n < length (index df)"
    using get_loc_mem by blast
  then show ?thesis using i assms(1) by (simp add: loc_of_def index_def)
qed

lemma weighted_mean_map:
  "weighted_mean (map (\<lambda>r. (g r, f r)) ks) =
     map (\<lambda>j. sum_list (map (\<lambda>r. f r ! j * real_of_int (g r)) ks)
                 / real_of_int (sum_list (map g ks)))
       [0..<(case ks of [] \<Rightarrow> 0 | r # _ \<Rightarrow> length (f r))]"
  by (cases ks) (simp_all add: weighted_mean_def comp_def mult.commute)

text \<open>
  Claim C1, as amended. Let the catalog hold one feature vector per row of the frame and
  let at least one rating survive. When the weights \<open>score - 3\<close> of the surviving
  ratings do not sum to zero, the profile the handler builds is the weighted arithmetic
  mean of the surviving items' feature vectors under these weights (a score of 5 weighs
  2, a score of 1 weighs \<open>-2\<close>, a score of 3 weighs 0); the right-hand side is the
  specification's formulation: Feature Store lookup, centring, weighted mean. When the
  weights sum to zero, no profile is built: numpy raises \<^verbatim>\<open>ZeroDivisionError\<close>, and on
  every service that passes the availability check with this frame and these features
  the request fails with the 500 answer.
\<close>

theorem profile_is_weighted_mean:
  assumes "length sf = length df"
    and "centred_pairs df sf rs \<noteq> []"
  shows "(sum_list (map fst (centred_pairs df sf rs)) \<noteq> 0 \<longrightarrow>
            user_profile df sf rs = Inr (Inr (weighted_mean (centred_pairs df sf rs))))
    \<and> (sum_list (map fst (centred_pairs df sf rs)) = 0 \<longrightarrow>
            user_profile df sf rs = Inl ZeroDivisionError
            \<and> (\<forall>s m sc k. knn_model s = Some m \<and> scaler s = Some sc
                   \<and> recommender_df s = Some df \<and> scaled_features s = Some sf \<longrightarrow>
                 submit_ratings_and_recommend s \<lparr>ratings_key = Some rs, top_k_key = k\<rparr>
                   = Inl (500, ''Failed to generate recommendations'')))"
proof -
  let ?ks = "filter (survives df) rs"
  have cp: "centred_pairs df sf rs = map (\<lambda>r. (weight_of r, sf ! loc_of df r)) ?ks"
    using assms(1) by (rule centred_pairs_aligned)
  have ne: "?ks \<noteq> []" using assms(2) cp by auto
  then have rs_ne: "rs \<noteq> []" by auto
  have ws: "sum_list (map fst (centred_pairs df sf rs)) = sum_list (map weight_of ?ks)"
    by (simp add: cp comp_def)
  have rng: "\<forall>r \<in> set rs. survives df r \<longrightarrow> loc_of df r < length sf"
    using loc_of_in_range [OF assms(1)] by blast
  have up: "user_profile df sf rs =
        (case np_average (map (\<lambda>r. sf ! loc_of df r) ?ks) (map weight_of ?ks) of
           Inl e \<Rightarrow> Inl e | Inr p \<Rightarrow> Inr (Inr p))"
    using rng ne by (simp add: user_profile_eq)
  have nonzero: "user_profile df sf rs = Inr (Inr (weighted_mean (centred_pairs df sf rs)))"
    if w: "sum_list (map fst (centred_pairs df sf rs)) \<noteq> 0"
  proof -
    have "np_average (map (\<lambda>r. sf ! loc_of df r) ?ks) (map weight_of ?ks)
        = Inr (weighted_mean (map (\<lambda>r. (weight_of r, sf ! loc_of df r)) ?ks))"
      unfolding np_average_map weighted_mean_map using w ws by simp
    then show ?thesis by (simp add: up cp)
  qed
  have zero: "user_profile df sf rs = Inl ZeroDivisionError"
    if w: "sum_list (map fst (centred_pairs df sf rs)) = 0"
  proof -
    have "np_average (map (\<lambda>r. sf ! loc_of df r) ?ks) (map weight_of ?ks) = Inl ZeroDivisionError"
      using w ws by (simp add: np_average_zero)
    then show ?thesis by (simp add: up)
  qed
  have fails: "submit_ratings_and_recommend s \<lparr>ratings_key = Some rs, top_k_key = k\<rparr>
                   = Inl (500, ''Failed to generate recommendations'')"
    if w: "sum_list (map fst (centred_pairs df sf rs)) = 0"
      and g: "knn_model s = Some m" "scaler s = Some sc"
        "recommender_df s = Some df" "scaled_features s = Some sf"
    for s m sc k
  proof -
    have "try_block m df sf \<lparr>ratings_key = Some rs, top_k_key = k\<rparr> = Inl ZeroDivisionError"
      using rs_ne zero [OF w] by (rule try_block_raises)
    then show ?thesis by (simp add: submit_ready [OF g])
  qed
  show ?thesis using nonzero zero fails by blast
qed

theorem profile_is_weighted_mean_witness:
  "user_profile df5 vectors5 [rate 0 5, rate 9 5, rate 1 4, rate 2 3] = Inr (Inr [1 / 3, 0])
   \<and> user_profile df5 vectors5 [rate 3 4, rate 4 2] = Inl ZeroDivisionError
   \<and> submit_ratings_and_recommend service5 (ask [rate 3 4, rate 4 2] 2)
       = Inl (500, ''Failed to generate recommendations'')"
proof -
  have a: "length vectors5 = length df5" by (simp add: vectors5_def df5_def)
  have c: "centred_pairs df5 vectors5 [rate 0 5, rate 9 5, rate 1 4, rate 2 3]
           = [(2, [0, 0]), (1, [1, 0]), (0, [0, 1])]"
    by (simp add: centred_pairs_def vectorOf_def rate_def df5_def vectors5_def index_def)
  have m: "weighted_mean [(2, [0, 0]), (1, [1, 0]), (0, [0, 1])] = [1 / 3, 0]"
    by (simp add: weighted_mean_def)
  have first: "user_profile df5 vectors5 [rate 0 5, rate 9 5, rate 1 4, rate 2 3]
      = Inr (Inr [1 / 3, 0])"
    using profile_is_weighted_mean [OF a, of "[rate 0 5, rate 9 5, rate 1 4, rate 2 3]"] c m
    by simp
  have z: "centred_pairs df5 vectors5 [rate 3 4, rate 4 2] = [(1, [5, 5]), (- 1, [5, 6])]"
    by (simp add: centred_pairs_def vectorOf_def rate_def df5_def vectors5_def index_def)
  have g: "knn_model service5 = Some knn5 \<and> scaler service5 = Some scaler5
      \<and> recommender_df service5 = Some df5 \<and> scaled_features service5 = Some vectors5"
    by (simp add: service5_def)
  have second: "user_profile df5 vectors5 [rate 3 4, rate 4 2] = Inl ZeroDivisionError
      \<and> submit_ratings_and_recommend service5
           \<lparr>ratings_key = Some [rate 3 4, rate 4 2], top_k_key = Some 2\<rparr>
          = Inl (500, ''Failed to generate recommendations'')"
    using profile_is_weighted_mean [OF a, of "[rate 3 4, rate 4 2]"] z g by auto
  show ?thesis using first second by (simp add: ask_def)
qed

text \<open>
  Against claim C1 as stated: rating track 0 with 5 and track 1 with 1 gives two
  surviving ratings with the weights 2 and \<open>-2\<close>; no profile is built, numpy raises
  \<^verbatim>\<open>ZeroDivisionError\<close> and the request gets the 500 answer.
\<close>

theorem zero_sum_batch_has_no_profile:
  "centred_pairs df5 vectors5 [rate 0 5, rate 1 1] = [(2, [0, 0]), (- 2, [1, 0])]
   \<and> user_profile df5 vectors5 [rate 0 5, rate 1 1] = Inl ZeroDivisionError
   \<and> submit_ratings_and_recommend service5 (ask [rate 0 5, rate 1 1] 2)
       = Inl (500, ''Failed to generate recommendations'')"
  by (simp add: centred_pairs_def vectorOf_def rate_def df5_def vectors5_def index_def
      user_profile_def np_average_def submit_ratings_and_recommend_def service5_def
      try_block_def ask_def)

subsection \<open>The index answer and the recommendation loop\<close>

lemma euclidean_nonneg: "0 \<le> euclidean q x"
proof -
  have "0 \<le> sum_list (map2 (\<lambda>a b. (a - b) ^ 2) q x)"
    by (rule sum_list_nonneg) auto
  then show ?thesis unfolding euclidean_def by (rule real_sqrt_ge_zero)
qed

lemma kneighbors_Inr_iff:
  "(\<exists>a. kneighbors m Q n = Inr a) \<longleftrightarrow> length Q = n_features m \<and> 1 \<le> n"
  by (auto simp: kneighbors_def Let_def)

lemma kneighbors_props:
  assumes "kneighbors m Q n = Inr (ds, is)"
  shows "length ds = min (nat n) (length (fit_X m))"
    and "length is = min (nat n) (length (fit_X m))"
    and "sorted ds"
    and "distinct is"
    and "\<forall>c \<in> set (zip is ds). fst c < length (fit_X m) \<and> snd c = euclidean Q (fit_X m ! fst c)"
proof -
  let ?X = "fit_X m"
  let ?L = "sort_key fst (zip (map (euclidean Q) ?X) [0..<length ?X])"
  let ?R = "take (nat n) ?L"
  have r: "ds = map fst ?R" "is = map snd ?R"
    using assms by (auto simp: kneighbors_def Let_def split: if_splits)
  show "length ds = min (nat n) (length ?X)" by (simp add: r)
  show "length is = min (nat n) (length ?X)" by (simp add: r)
  have "sorted (map fst ?L)" by (rule sorted_sort_key)
  then have "sorted (take (nat n) (map fst ?L))" by (rule sorted_wrt_take)
  then show "sorted ds" by (simp add: r take_map)
  have "distinct (map snd (zip (map (euclidean Q) ?X) [0..<length ?X]))" by simp
  then have "distinct (map snd ?L)"
    by (metis distinct_map distinct_sort set_sort)
  then have "distinct (take (nat n) (map snd ?L))" by (rule distinct_take)
  then show "distinct is" by (simp add: r take_map)
  have mem: "\<forall>p \<in> set ?L. snd p < length ?X \<and> fst p = euclidean Q (?X ! snd p)"
    by (auto simp: set_zip)
  have "zip is ds = map (\<lambda>p. (snd p, fst p)) ?R"
    by (simp add: r zip_map_same)
  moreover have "set ?R \<subseteq> set ?L" by (rule set_take_subset)
  ultimately show "\<forall>c \<in> set (zip is ds). fst c < length ?X \<and> snd c = euclidean Q (?X ! fst c)"
    using mem by auto
qed

lemma rated_df_indices_Inr:
  "rated_df_indices rs = Inr S \<Longrightarrow> (Some x \<notin> S \<longleftrightarrow> (\<forall>r \<in> set rs. df_index r \<noteq> Num x))"
proof (induction rs arbitrary: S)
  case Nil
  then show ?case by auto
next
  case (Cons a rs)
  then show ?case
    by (cases "df_index a") (auto split: sum.splits)
qed

lemma rated_df_indices_total:
  "\<forall>r \<in> set rs. df_index r \<noteq> Absent \<Longrightarrow> \<exists>S. rated_df_indices rs = Inr S"
proof (induction rs)
  case Nil
  show ?case by simp
next
  case (Cons a rs)
  then obtain S where "rated_df_indices rs = Inr S" by auto
  then show ?case using Cons.prems by (cases "df_index a") auto
qed

lemma make_recommendation_ok:
  "year song \<noteq> Some NaN \<Longrightarrow> popularity song \<noteq> Some NaN \<Longrightarrow>
     \<exists>r. make_recommendation song d = Inr r"
proof -
  assume y: "year song \<noteq> Some NaN" and p: "popularity song \<noteq> Some NaN"
  obtain a where a: "int_of_cell (year song) = Inr a"
    using y by (cases "year song" rule: int_of_cell.cases) auto
  obtain b where b: "int_of_cell (popularity song) = Inr b"
    using p by (cases "popularity song" rule: int_of_cell.cases) auto
  show ?thesis by (simp add: make_recommendation_def a b)
qed

lemma make_recommendation_similarity:
  "make_recommendation song d = Inr r \<Longrightarrow> similarity_score r = 1 - d"
  by (auto simp: make_recommendation_def split: sum.splits)

lemma rec_loop_Inr:
  "rec_loop df rated top_k is ds recs = Inr out \<Longrightarrow>
     map Inr out = map Inr recs @ map (format_candidate df)
             (take (nat top_k - length recs)
                (filter (\<lambda>c. Some (fst (df ! fst c)) \<notin> rated) (zip is ds)))"
proof (induction "is" arbitrary: ds recs)
  case Nil
  then show ?case by simp
next
  case (Cons i "is")
  show ?case
  proof (cases "int (length recs) \<ge> top_k")
    case True
    then have "nat top_k - length recs = 0" by linarith
    then show ?thesis using Cons.prems True by simp
  next
    case False
    then have pos: "nat top_k - length recs = Suc (nat top_k - Suc (length recs))" by linarith
    from Cons.prems False obtain d ds' where ds: "ds = d # ds'"
      by (cases ds) auto
    have lt: "i < length df" using Cons.prems False ds by (auto split: if_splits)
    show ?thesis
    proof (cases "Some (fst (df ! i)) \<notin> rated")
      case True
      then obtain r where r: "make_recommendation (snd (df ! i)) d = Inr r"
        and loop: "rec_loop df rated top_k is ds' (recs @ [r]) = Inr out"
        using Cons.prems False ds lt by (auto split: sum.splits)
      from Cons.IH [OF loop] show ?thesis
        using True ds pos r by (simp add: format_candidate_def)
    next
      case rated: False
      then have "rec_loop df rated top_k is ds' recs = Inr out"
        using Cons.prems False ds lt by simp
      from Cons.IH [OF this] show ?thesis
        using rated ds by simp
    qed
  qed
qed

lemma rec_loop_total:
  "\<forall>i \<in> set is. i < length df \<Longrightarrow> length is \<le> length ds \<Longrightarrow>
   \<forall>row \<in> set df. year (snd row) \<noteq> Some NaN \<and> popularity (snd row) \<noteq> Some NaN \<Longrightarrow>
     \<exists>out. rec_loop df rated top_k is ds recs = Inr out"
proof (induction "is" arbitrary: ds recs)
  case Nil
  show ?case by simp
next
  case (Cons i "is")
  then obtain d ds' where ds: "ds = d # ds'" by (cases ds) auto
  have a: "\<forall>i \<in> set is. i < length df" "length is \<le> length ds'"
    using Cons.prems ds by auto
  have lt: "i < length df" using Cons.prems(1) by simp
  then have "df ! i \<in> set df" by simp
  then have "year (snd (df ! i)) \<noteq> Some NaN" "popularity (snd (df ! i)) \<noteq> Some NaN"
    using Cons.prems(3) by blast+
  then obtain r where r: "make_recommendation (snd (df ! i)) d = Inr r"
    using make_recommendation_ok by blast
  show ?case
    using Cons.IH [OF a Cons.prems(3)] lt ds r by simp
qed

lemma rec_loop_in_range:
  "rec_loop df rated top_k is ds recs = Inr out \<Longrightarrow>
     \<forall>c \<in> set (take (nat top_k - length recs)
                (filter (\<lambda>c. Some (fst (df ! fst c)) \<notin> rated) (zip is ds))). fst c < length df"
proof (induction "is" arbitrary: ds recs)
  case Nil
  then show ?case by simp
next
  case (Cons i "is")
  show ?case
  proof (cases "int (length recs) \<ge> top_k")
    case True
    then have "nat top_k - length recs = 0" by linarith
    then show ?thesis by simp
  next
    case False
    then have pos: "nat top_k - length recs = Suc (nat top_k - Suc (length recs))" by linarith
    from Cons.prems False obtain d ds' where ds: "ds = d # ds'"
      by (cases ds) auto
    have lt: "i < length df" using Cons.prems False ds by (auto split: if_splits)
    show ?thesis
    proof (cases "Some (fst (df ! i)) \<notin> rated")
      case True
      then obtain r where "rec_loop df rated top_k is ds' (recs @ [r]) = Inr out"
        using Cons.prems False ds lt by (auto split: sum.splits)
      from Cons.IH [OF this] show ?thesis
        using True ds pos lt by simp
    next
      case rated: False
      then have "rec_loop df rated top_k is ds' recs = Inr out"
        using Cons.prems False ds lt by simp
      from Cons.IH [OF this] show ?thesis
        using rated ds by simp
    qed
  qed
qed

lemma submit_Inr:
  assumes "knn_model s = Some m" "scaler s = Some sc"
    "recommender_df s = Some df" "scaled_features s = Some sf"
    and "submit_ratings_and_recommend s \<lparr>ratings_key = Some rs, top_k_key = Some k\<rparr> = Inr out"
  shows "\<exists>p ds is. user_profile df sf rs = Inr (Inr p) \<and> kneighbors m p (k * 2) = Inr (ds, is)
           \<and> candidates m df sf rs k = zip is ds"
    and "map (format_candidate df) (picked m df sf rs k) = map Inr (recommendations out)"
    and "count_field out = length (recommendations out)"
    and "\<forall>c \<in> set (picked m df sf rs k). fst c < length df"
proof -
  have tb: "try_block m df sf \<lparr>ratings_key = Some rs, top_k_key = Some k\<rparr> = Inr (Inr out)"
    using assms(5) by (auto simp: submit_ready [OF assms(1-4)] split: sum.splits)
  then obtain p where p: "user_profile df sf rs = Inr (Inr p)"
    by (auto simp: try_block_def Let_def split: sum.splits if_splits)
  from tb p obtain ds "is" where kn: "kneighbors m p (k * 2) = Inr (ds, is)"
    by (auto simp: try_block_def Let_def split: sum.splits if_splits prod.splits)
  from tb p kn obtain S where S: "rated_df_indices rs = Inr S"
    by (auto simp: try_block_def Let_def split: sum.splits if_splits)
  from tb p kn S obtain recs where recs: "rec_loop df S k is ds [] = Inr recs"
    and out: "out = \<lparr>recommendations = recs, count_field = length recs, based_on = length rs\<rparr>"
    by (auto simp: try_block_def Let_def split: sum.splits if_splits)
  have cand: "candidates m df sf rs k = zip is ds"
    by (simp add: candidates_def p kn)
  have pred: "(\<lambda>c. Some (fst (df ! fst c)) \<notin> S) = unrated df rs"
    using rated_df_indices_Inr [OF S] by (auto simp: unrated_def fun_eq_iff)
  show "\<exists>p ds is. user_profile df sf rs = Inr (Inr p) \<and> kneighbors m p (k * 2) = Inr (ds, is)
           \<and> candidates m df sf rs k = zip is ds"
    using p kn cand by blast
  show "map (format_candidate df) (picked m df sf rs k) = map Inr (recommendations out)"
    using rec_loop_Inr [OF recs] by (simp add: out picked_def cand pred)
  show "count_field out = length (recommendations out)" by (simp add: out)
  show "\<forall>c \<in> set (picked m df sf rs k). fst c < length df"
    using rec_loop_in_range [OF recs] by (simp add: picked_def cand pred)
qed

lemma user_profile_length:
  assumes "user_profile df sf rs = Inr (Inr p)" "\<forall>row \<in> set sf. length row = d"
  shows "length p = d"
proof -
  let ?ks = "filter (survives df) rs"
  have rng: "\<forall>r \<in> set rs. survives df r \<longrightarrow> loc_of df r < length sf"
    using assms(1) unfolding user_profile_eq by (auto split: if_splits)
  have ne: "?ks \<noteq> []"
    using assms(1) rng unfolding user_profile_eq by (auto split: if_splits)
  then obtain r ks' where ks: "?ks = r # ks'" by (cases ?ks) auto
  then have "r \<in> set ?ks" by simp
  then have "loc_of df r < length sf" using rng by simp
  then have len: "length (sf ! loc_of df r) = d" using assms(2) by simp
  have "np_average (map (\<lambda>r. sf ! loc_of df r) ?ks) (map weight_of ?ks) = Inr p"
    using assms(1) rng ne unfolding user_profile_eq by (auto split: if_splits sum.splits)
  then have "p = map (\<lambda>j. sum_list (map (\<lambda>r. sf ! loc_of df r ! j * real_of_int (weight_of r)) ?ks)
                          / real_of_int (sum_list (map weight_of ?ks)))
                  [0..<(case ?ks of [] \<Rightarrow> 0 | r # _ \<Rightarrow> length (sf ! loc_of df r))]"
    unfolding np_average_map by (auto split: if_splits)
  then have "length p = (case ?ks of [] \<Rightarrow> 0 | r # _ \<Rightarrow> length (sf ! loc_of df r))"
    by simp
  then show ?thesis using ks len by simp
qed

lemma candidates_props:
  shows "sorted (map snd (candidates m df sf rs k))"
    and "\<forall>c \<in> set (candidates m df sf rs k). 0 \<le> snd c"
proof -
  have "sorted (map snd (candidates m df sf rs k)) \<and> (\<forall>c \<in> set (candidates m df sf rs k). 0 \<le> snd c)"
  proof (cases "user_profile df sf rs")
    case (Inl e)
    then show ?thesis by (simp add: candidates_def)
  next
    case (Inr a)
    show ?thesis
    proof (cases a)
      case (Inl err)
      then show ?thesis using Inr by (simp add: candidates_def)
    next
      case (Inr p)
      note p = \<open>user_profile df sf rs = Inr a\<close> [unfolded Inr]
      show ?thesis
      proof (cases "kneighbors m p (k * 2)")
        case (Inl e)
        then show ?thesis using p by (simp add: candidates_def)
      next
        case (Inr b)
        then obtain ds "is" where kn: "kneighbors m p (k * 2) = Inr (ds, is)"
          by (cases b) auto
        note props = kneighbors_props [OF kn]
        have cand: "candidates m df sf rs k = zip is ds"
          by (simp add: candidates_def p kn)
        have "map snd (zip is ds) = ds"
          using props(1,2) by simp
        then have s: "sorted (map snd (zip is ds))" using props(3) by simp
        have "\<forall>c \<in> set (zip is ds). 0 \<le> snd c"
          using props(5) euclidean_nonneg by auto
        then show ?thesis using s cand by simp
      qed
    qed
  qed
  then show "sorted (map snd (candidates m df sf rs k))"
    and "\<forall>c \<in> set (candidates m df sf rs k). 0 \<le> snd c"
    by blast+
qed

lemma picked_sorted: "sorted (map snd (picked m df sf rs k))"
proof -
  have "sorted_wrt (\<lambda>a b. snd a \<le> snd b) (candidates m df sf rs k)"
    using candidates_props(1) [of m df sf rs k] by (simp add: sorted_wrt_map)
  then have "sorted_wrt (\<lambda>a b. snd a \<le> snd b) (filter (unrated df rs) (candidates m df sf rs k))"
    by (rule sorted_wrt_filter)
  then have "sorted_wrt (\<lambda>a b. snd a \<le> snd b) (picked m df sf rs k)"
    unfolding picked_def by (rule sorted_wrt_take)
  then show ?thesis by (simp add: sorted_wrt_map)
qed

lemma picked_subset: "set (picked m df sf rs k) \<subseteq> set (candidates m df sf rs k)"
  unfolding picked_def by (auto dest: in_set_takeD)

lemma similarity_format:
  "format_candidate df c = Inr r \<Longrightarrow> similarity_score r = 1 - snd c"
  unfolding format_candidate_def by (rule make_recommendation_similarity)

lemma formatted_similarity:
  "map (format_candidate df) cs = map Inr recs \<Longrightarrow>
     map similarity_score recs = map (\<lambda>c. 1 - snd c) cs"
proof (induction cs arbitrary: recs)
  case Nil
  then show ?case by simp
next
  case (Cons c cs)
  then obtain r recs' where recs: "recs = r # recs'" by (cases recs) auto
  then have "format_candidate df c = Inr r" "map (format_candidate df) cs = map Inr recs'"
    using Cons.prems by auto
  then show ?case using Cons.IH recs by (simp add: similarity_format)
qed

subsection \<open>Exclusion of rated items\<close>

text \<open>
  Claim C2. Whenever the handler answers with recommendations, the list is the formatted
  list of the kept candidates, each of them is a row of the frame, and no rating object
  of the batch carries the identity of a kept candidate: every rated item is excluded.
  (The JSON records do not carry the identity; it is the index label at the candidate's
  position.)
\<close>

theorem rated_items_excluded:
  assumes "knn_model s = Some m" "scaler s = Some sc"
    "recommender_df s = Some df" "scaled_features s = Some sf"
    and "submit_ratings_and_recommend s \<lparr>ratings_key = Some rs, top_k_key = Some k\<rparr> = Inr out"
  shows "map (format_candidate df) (picked m df sf rs k) = map Inr (recommendations out)
    \<and> (\<forall>c \<in> set (picked m df sf rs k).
          fst c < length df \<and> (\<forall>r \<in> set rs. df_index r \<noteq> Num (fst (df ! fst c))))"
proof -
  have "\<forall>c \<in> set (picked m df sf rs k). unrated df rs c"
    by (auto simp: picked_def dest: in_set_takeD)
  then show ?thesis
    using submit_Inr(2,4) [OF assms] by (simp add: unrated_def)
qed

theorem rated_items_excluded_witness:
  "picked knn5 df5 vectors5 [rate 0 5, rate 2 3] 2 = [(1, 1), (3, sqrt 50)]
   \<and> submit_ratings_and_recommend service5 (ask [rate 0 5, rate 2 3] 2)
       = Inr \<lparr>recommendations = [rec5 1, rec5 (sqrt 50)], count_field = 2, based_on = 2\<rparr>"
proof -
  have g: "knn_model service5 = Some knn5" "scaler service5 = Some scaler5"
    "recommender_df service5 = Some df5" "scaled_features service5 = Some vectors5"
    by (simp_all add: service5_def)
  have e: "submit_ratings_and_recommend service5
       \<lparr>ratings_key = Some [rate 0 5, rate 2 3], top_k_key = Some 2\<rparr>
       = Inr \<lparr>recommendations = [rec5 1, rec5 (sqrt 50)], count_field = 2, based_on = 2\<rparr>"
    by (simp add: submit_ratings_and_recommend_def service5_def try_block_def user_profile_def
        rate_def df5_def vectors5_def knn5_def index_def np_average_def kneighbors_def
        euclidean_def make_recommendation_def song5_def rec5_def)
  have p: "picked knn5 df5 vectors5 [rate 0 5, rate 2 3] 2 = [(1, 1), (3, sqrt 50)]"
    by (simp add: picked_def candidates_def unrated_def user_profile_def
        rate_def df5_def vectors5_def knn5_def index_def np_average_def kneighbors_def
        euclidean_def)
  show ?thesis using rated_items_excluded [OF g e] p e by (simp add: ask_def)
qed

subsection \<open>At most \<open>top_k\<close> recommendations\<close>

text \<open>A \<^verbatim>\<open>NaN\<close> cell in a kept candidate's row makes line 458 raise, and the request
  fails with the 500 answer.\<close>

lemma nan_year_fails:
  "submit_ratings_and_recommend service5_nan (ask [rate 0 5] 2)
     = Inl (500, ''Failed to generate recommendations'')"
  by (simp add: submit_ratings_and_recommend_def service5_nan_def service5_def try_block_def
      user_profile_def ask_def rate_def df5_nan_def vectors5_def knn5_def index_def
      np_average_def kneighbors_def euclidean_def make_recommendation_def song5_def)

text \<open>
  Claim C3. On a service that passes the availability check, whose index and feature
  matrix agree on the coordinate count, whose frame has a row for every indexed vector
  and no \<^verbatim>\<open>NaN\<close> cell in \<^verbatim>\<open>year\<close> or \<^verbatim>\<open>popularity\<close>, for a batch whose profile
  is built and whose rating objects all have the \<^verbatim>\<open>df_index\<close> key, and for every
  \<open>top_k\<close> of at least 1 (however large): the request succeeds, the index answer is
  clamped to the catalog size, at most \<open>top_k\<close> recommendations are returned, and when
  fewer than \<open>top_k\<close> fetched candidates are unrated all of them are returned, without
  padding. The handler passes \<open>top_k * 2\<close> to the index as it is; the clamping is that
  of the index as the specification describes it.
\<close>

theorem at_most_top_k:
  assumes "knn_model s = Some m" "scaler s = Some sc"
    "recommender_df s = Some df" "scaled_features s = Some sf"
    and "\<forall>row \<in> set sf. length row = n_features m"
    and "length (fit_X m) \<le> length df"
    and "\<forall>row \<in> set df. year (snd row) \<noteq> Some NaN \<and> popularity (snd row) \<noteq> Some NaN"
    and "user_profile df sf rs = Inr (Inr p)"
    and "\<forall>r \<in> set rs. df_index r \<noteq> Absent"
    and "1 \<le> k"
  shows "\<exists>out. submit_ratings_and_recommend s \<lparr>ratings_key = Some rs, top_k_key = Some k\<rparr> = Inr out
    \<and> length (recommendations out) \<le> nat k
    \<and> count_field out = length (recommendations out)
    \<and> length (candidates m df sf rs k) = min (nat (k * 2)) (length (fit_X m))
    \<and> map Inr (recommendations out)
        = map (format_candidate df) (take (nat k) (filter (unrated df rs) (candidates m df sf rs k)))
    \<and> (length (filter (unrated df rs) (candidates m df sf rs k)) < nat k \<longrightarrow>
        map Inr (recommendations out)
          = map (format_candidate df) (filter (unrated df rs) (candidates m df sf rs k)))"
proof -
  have ne: "rs \<noteq> []"
    using assms(8) by (auto simp: user_profile_def)
  have "length p = n_features m"
    using assms(8,5) by (rule user_profile_length)
  moreover have "1 \<le> k * 2" using assms(10) by simp
  ultimately obtain a where "kneighbors m p (k * 2) = Inr a"
    using kneighbors_Inr_iff by blast
  then obtain ds "is" where kn: "kneighbors m p (k * 2) = Inr (ds, is)"
    by (cases a) auto
  note props = kneighbors_props [OF kn]
  have cand: "candidates m df sf rs k = zip is ds"
    by (simp add: candidates_def assms(8) kn)
  have clen: "length (candidates m df sf rs k) = min (nat (k * 2)) (length (fit_X m))"
    by (simp add: cand props(1,2))
  obtain S where S: "rated_df_indices rs = Inr S"
    using rated_df_indices_total [OF assms(9)] by blast
  have "\<forall>i \<in> set is. i < length (fit_X m)"
  proof
    fix i assume "i \<in> set is"
    then obtain j where j: "j < length is" "is ! j = i" by (auto simp: in_set_conv_nth)
    then have "(i, ds ! j) \<in> set (zip is ds)"
      using props(1,2) by (auto simp: set_zip)
    then show "i < length (fit_X m)" using props(5) by fastforce
  qed
  then have rng: "\<forall>i \<in> set is. i < length df" using assms(6) by auto
  have "length is \<le> length ds" by (simp add: props(1,2))
  with rng obtain recs where recs: "rec_loop df S k is ds [] = Inr recs"
    using rec_loop_total [OF _ _ assms(7)] by blast
  let ?out = "\<lparr>recommendations = recs, count_field = length recs, based_on = length rs\<rparr>"
  have "try_block m df sf \<lparr>ratings_key = Some rs, top_k_key = Some k\<rparr> = Inr (Inr ?out)"
    using ne assms(8) kn S recs by (simp add: try_block_def)
  then have sub: "submit_ratings_and_recommend s \<lparr>ratings_key = Some rs, top_k_key = Some k\<rparr>
      = Inr ?out"
    by (simp add: submit_ready [OF assms(1-4)])
  have eq: "map Inr (recommendations ?out)
      = map (format_candidate df) (take (nat k) (filter (unrated df rs) (candidates m df sf rs k)))"
    using submit_Inr(2) [OF assms(1-4) sub] by (simp only: picked_def)
  have "length (map Inr (recommendations ?out) :: (exn + recommendation) list) \<le> nat k"
    unfolding eq by simp
  then have le: "length (recommendations ?out) \<le> nat k" by simp
  have all: "length (filter (unrated df rs) (candidates m df sf rs k)) < nat k \<longrightarrow>
        map Inr (recommendations ?out)
          = map (format_candidate df) (filter (unrated df rs) (candidates m df sf rs k))"
    using eq by simp
  have cnt: "count_field ?out = length (recommendations ?out)" by simp
  show ?thesis
    using sub le cnt clen eq all by blast
qed

theorem at_most_top_k_witness:
  "submit_ratings_and_recommend service5 (ask [rate 0 5] 5)
     = Inr \<lparr>recommendations = [rec5 1, rec5 1, rec5 (sqrt 50), rec5 (sqrt 61)],
            count_field = 4, based_on = 1\<rparr>
   \<and> length (candidates knn5 df5 vectors5 [rate 0 5] 5) = 5"
proof -
  have g: "knn_model service5 = Some knn5" "scaler service5 = Some scaler5"
    "recommender_df service5 = Some df5" "scaled_features service5 = Some vectors5"
    by (simp_all add: service5_def)
  have a: "\<forall>row \<in> set vectors5. length row = n_features knn5"
    by (simp add: vectors5_def knn5_def)
  have b: "length (fit_X knn5) \<le> length df5"
    by (simp add: vectors5_def knn5_def df5_def)
  have n: "\<forall>row \<in> set df5. year (snd row) \<noteq> Some NaN \<and> popularity (snd row) \<noteq> Some NaN"
    by (simp add: df5_def song5_def)
  have c: "user_profile df5 vectors5 [rate 0 5] = Inr (Inr [0, 0])"
    by (simp add: user_profile_def rate_def df5_def vectors5_def index_def np_average_def)
  have d: "\<forall>r \<in> set [rate 0 5]. df_index r \<noteq> Absent" by (simp add: rate_def)
  have e: "(1::int) \<le> 5" by simp
  have cs: "candidates knn5 df5 vectors5 [rate 0 5] 5
      = [(0, 0), (1, 1), (2, 1), (3, sqrt 50), (4, sqrt 61)]"
    unfolding candidates_def c
    by (simp add: kneighbors_def knn5_def vectors5_def euclidean_def)
  have f: "filter (unrated df5 [rate 0 5]) [(0, 0), (1, 1), (2, 1), (3, sqrt 50), (4, sqrt 61)]
      = [(1, 1), (2, 1), (3, sqrt 50), (4, sqrt 61)]"
    by (simp add: unrated_def rate_def df5_def)
  have h: "map (format_candidate df5) [(1, 1), (2, 1), (3, sqrt 50), (4, sqrt 61)]
      = map Inr [rec5 1, rec5 1, rec5 (sqrt 50), rec5 (sqrt 61)]"
    by (simp add: format_candidate_def df5_def make_recommendation_def song5_def rec5_def)
  from at_most_top_k [OF g a b n c d e] obtain out where
    o: "submit_ratings_and_recommend service5 \<lparr>ratings_key = Some [rate 0 5], top_k_key = Some 5\<rparr>
          = Inr out"
      "count_field out = length (recommendations out)"
      "map Inr (recommendations out) = map (format_candidate df5)
         (take (nat 5) (filter (unrated df5 [rate 0 5]) (candidates knn5 df5 vectors5 [rate 0 5] 5)))"
    by blast
  have "map Inr (recommendations out)
      = (map Inr [rec5 1, rec5 1, rec5 (sqrt 50), rec5 (sqrt 61)] :: (exn + recommendation) list)"
    unfolding o(3) cs f using h by simp
  then have r: "recommendations out = [rec5 1, rec5 1, rec5 (sqrt 50), rec5 (sqrt 61)]"
    by (auto simp: map_eq_Cons_conv)
  moreover have "based_on out = 1"
    using o(1)
    by (auto simp: submit_ratings_and_recommend_def service5_def try_block_def Let_def
        split: sum.splits prod.splits if_splits)
  ultimately have "out = \<lparr>recommendations = [rec5 1, rec5 1, rec5 (sqrt 50), rec5 (sqrt 61)],
         count_field = 4, based_on = 1\<rparr>"
    using o(2) by (cases out) simp
  then show ?thesis using o(1) cs by (simp add: ask_def)
qed

subsection \<open>The similarity score\<close>

text \<open>
  Claim C6, as amended. Every returned recommendation is the record of a fetched
  candidate and carries the similarity \<open>1 - distance\<close> of that candidate; distances
  are not negative, so the score is at most 1, and it is at least 0 exactly when the
  distance is at most 1.
\<close>

theorem similarity_is_one_minus_distance:
  assumes "knn_model s = Some m" "scaler s = Some sc"
    "recommender_df s = Some df" "scaled_features s = Some sf"
    and "submit_ratings_and_recommend s \<lparr>ratings_key = Some rs, top_k_key = Some k\<rparr> = Inr out"
  shows "\<forall>r \<in> set (recommendations out).
           similarity_score r \<le> 1
           \<and> (\<exists>c \<in> set (candidates m df sf rs k).
                 format_candidate df c = Inr r
                 \<and> similarity_score r = 1 - snd c \<and> 0 \<le> snd c
                 \<and> (0 \<le> similarity_score r \<longleftrightarrow> snd c \<le> 1))"
proof
  fix r assume "r \<in> set (recommendations out)"
  then have "Inr r \<in> set (map (format_candidate df) (picked m df sf rs k))"
    unfolding submit_Inr(2) [OF assms] by simp
  then obtain c where c: "c \<in> set (picked m df sf rs k)" "format_candidate df c = Inr r"
    by auto
  then have mem: "c \<in> set (candidates m df sf rs k)" using picked_subset by blast
  then have nn: "0 \<le> snd c" using candidates_props(2) by blast
  have sim: "similarity_score r = 1 - snd c" using c(2) by (rule similarity_format)
  show "similarity_score r \<le> 1
           \<and> (\<exists>c \<in> set (candidates m df sf rs k).
                 format_candidate df c = Inr r
                 \<and> similarity_score r = 1 - snd c \<and> 0 \<le> snd c
                 \<and> (0 \<le> similarity_score r \<longleftrightarrow> snd c \<le> 1))"
    using mem nn sim c(2) by auto
qed

theorem similarity_is_one_minus_distance_witness:
  "similarity_score (rec5 1) \<le> 1 \<and> similarity_score (rec5 (sqrt 50)) \<le> 1"
proof -
  have g: "knn_model service5 = Some knn5" "scaler service5 = Some scaler5"
    "recommender_df service5 = Some df5" "scaled_features service5 = Some vectors5"
    by (simp_all add: service5_def)
  have e: "submit_ratings_and_recommend service5
       \<lparr>ratings_key = Some [rate 0 5, rate 2 3], top_k_key = Some 2\<rparr>
       = Inr \<lparr>recommendations = [rec5 1, rec5 (sqrt 50)], count_field = 2, based_on = 2\<rparr>"
    by (simp add: submit_ratings_and_recommend_def service5_def try_block_def user_profile_def
        rate_def df5_def vectors5_def knn5_def index_def np_average_def kneighbors_def
        euclidean_def make_recommendation_def song5_def rec5_def)
  show ?thesis using similarity_is_one_minus_distance [OF g e] by simp
qed

text \<open>
  Against claim C6 as stated: in the five-track catalog, rating track 0 with 5 and
  track 1 with 3 and asking for two recommendations (four neighbours of five tracks)
  returns track 3 at distance \<open>sqrt 50\<close>, with a negative similarity score.
\<close>

theorem similarity_below_zero:
  "submit_ratings_and_recommend service5 (ask [rate 0 5, rate 1 3] 2)
     = Inr \<lparr>recommendations = [rec5 1, rec5 (sqrt 50)], count_field = 2, based_on = 2\<rparr>
   \<and> similarity_score (rec5 (sqrt 50)) < 0"
proof -
  have "(1::real) < sqrt 50" by (rule real_less_rsqrt) simp
  then have "similarity_score (rec5 (sqrt 50)) < 0"
    by (simp add: rec5_def)
  moreover have "submit_ratings_and_recommend service5 (ask [rate 0 5, rate 1 3] 2)
     = Inr \<lparr>recommendations = [rec5 1, rec5 (sqrt 50)], count_field = 2, based_on = 2\<rparr>"
    by (simp add: submit_ratings_and_recommend_def service5_def try_block_def user_profile_def
        ask_def rate_def df5_def vectors5_def knn5_def index_def np_average_def kneighbors_def
        euclidean_def make_recommendation_def song5_def rec5_def)
  ultimately show ?thesis by simp
qed

subsection \<open>Order of the index answer and of the recommendations\<close>

text \<open>
  Claim C7. For a query vector of the store's coordinate count and \<open>n\<close> of at least 1,
  the index returns exactly \<open>min n catalogSize\<close> distances and positions, the distances
  in non-decreasing order, each the Euclidean distance of the query to the vector at its
  position, no position twice. Whenever the handler answers with recommendations, the
  kept candidates are in non-decreasing order of distance and the recommendations in
  non-increasing order of similarity.
\<close>

theorem index_answer_sorted:
  assumes "knn_model s = Some m" "scaler s = Some sc"
    "recommender_df s = Some df" "scaled_features s = Some sf"
  shows "(length Q = n_features m \<and> 1 \<le> n \<longrightarrow>
          (\<exists>ds is. kneighbors m Q n = Inr (ds, is)
             \<and> length ds = min (nat n) (length (fit_X m))
             \<and> length is = min (nat n) (length (fit_X m))
             \<and> sorted ds \<and> distinct is
             \<and> (\<forall>j < length is. is ! j < length (fit_X m)
                    \<and> ds ! j = euclidean Q (fit_X m ! (is ! j)))))
    \<and> (submit_ratings_and_recommend s \<lparr>ratings_key = Some rs, top_k_key = Some k\<rparr> = Inr out \<longrightarrow>
          map (format_candidate df) (picked m df sf rs k) = map Inr (recommendations out)
          \<and> sorted (map snd (picked m df sf rs k))
          \<and> sorted_wrt (\<lambda>a b. similarity_score a \<ge> similarity_score b) (recommendations out))"
proof (intro conjI impI)
  assume "length Q = n_features m \<and> 1 \<le> n"
  then obtain a where "kneighbors m Q n = Inr a"
    using kneighbors_Inr_iff by blast
  then obtain ds "is" where kn: "kneighbors m Q n = Inr (ds, is)" by (cases a) auto
  note props = kneighbors_props [OF kn]
  have "\<forall>j < length is. is ! j < length (fit_X m) \<and> ds ! j = euclidean Q (fit_X m ! (is ! j))"
  proof (intro allI impI)
    fix j assume j: "j < length is"
    then have "(is ! j, ds ! j) \<in> set (zip is ds)"
      using props(1,2) by (auto simp: set_zip)
    then show "is ! j < length (fit_X m) \<and> ds ! j = euclidean Q (fit_X m ! (is ! j))"
      using props(5) by fastforce
  qed
  then show "\<exists>ds is. kneighbors m Q n = Inr (ds, is)
             \<and> length ds = min (nat n) (length (fit_X m))
             \<and> length is = min (nat n) (length (fit_X m))
             \<and> sorted ds \<and> distinct is
             \<and> (\<forall>j < length is. is ! j < length (fit_X m)
                    \<and> ds ! j = euclidean Q (fit_X m ! (is ! j)))"
    using kn props(1-4) by blast
next
  assume e: "submit_ratings_and_recommend s \<lparr>ratings_key = Some rs, top_k_key = Some k\<rparr> = Inr out"
  show eq: "map (format_candidate df) (picked m df sf rs k) = map Inr (recommendations out)"
    by (rule submit_Inr(2) [OF assms e])
  show srt: "sorted (map snd (picked m df sf rs k))" by (rule picked_sorted)
  have "map similarity_score (recommendations out) = map (\<lambda>c. 1 - snd c) (picked m df sf rs k)"
    using eq by (rule formatted_similarity)
  moreover have "sorted_wrt (\<lambda>a b. a \<ge> b) (map (\<lambda>c. 1 - snd c) (picked m df sf rs k))"
    using srt by (simp add: sorted_wrt_map)
  ultimately have "sorted_wrt (\<lambda>a b. a \<ge> b) (map similarity_score (recommendations out))"
    by simp
  then show "sorted_wrt (\<lambda>a b. similarity_score a \<ge> similarity_score b) (recommendations out)"
    by (simp add: sorted_wrt_map)
qed

theorem index_answer_sorted_witness:
  "kneighbors knn5 [0, 0] 6 = Inr ([0, 1, 1, sqrt 50, sqrt 61], [0, 1, 2, 3, 4])
   \<and> sorted [0, 1, 1, sqrt 50, sqrt 61]
   \<and> sorted_wrt (\<lambda>a b. similarity_score a \<ge> similarity_score b) [rec5 1, rec5 (sqrt 50)]"
proof -
  have g: "knn_model service5 = Some knn5" "scaler service5 = Some scaler5"
    "recommender_df service5 = Some df5" "scaled_features service5 = Some vectors5"
    by (simp_all add: service5_def)
  have e: "submit_ratings_and_recommend service5
       \<lparr>ratings_key = Some [rate 0 5, rate 2 3], top_k_key = Some 2\<rparr>
       = Inr \<lparr>recommendations = [rec5 1, rec5 (sqrt 50)], count_field = 2, based_on = 2\<rparr>"
    by (simp add: submit_ratings_and_recommend_def service5_def try_block_def user_profile_def
        rate_def df5_def vectors5_def knn5_def index_def np_average_def kneighbors_def
        euclidean_def make_recommendation_def song5_def rec5_def)
  have kn: "kneighbors knn5 [0, 0] 6 = Inr ([0, 1, 1, sqrt 50, sqrt 61], [0, 1, 2, 3, 4])"
    by (simp add: kneighbors_def knn5_def vectors5_def euclidean_def)
  have q: "length [0, 0 :: real] = n_features knn5 \<and> (1::int) \<le> 6" by (simp add: knn5_def)
  note t = index_answer_sorted [OF g, of "[0, 0]" 6 "[rate 0 5, rate 2 3]" 2
      "\<lparr>recommendations = [rec5 1, rec5 (sqrt 50)], count_field = 2, based_on = 2\<rparr>"]
  from t q kn have "sorted [0, 1, 1, sqrt 50, sqrt 61]" by auto
  moreover from t e have "sorted_wrt (\<lambda>a b. similarity_score a \<ge> similarity_score b)
        [rec5 1, rec5 (sqrt 50)]" by auto
  ultimately show ?thesis using kn by simp
qed

end
